theory Spec2Isabelle
  imports Complex_Main
begin

section \<open>Python values, exceptions and built-ins\<close>

text \<open>
  The integration is two Python modules: \<^verbatim>\<open>vakio.py\<close> (the MQTT session \<^verbatim>\<open>MqttClient\<close> and
  the \<^verbatim>\<open>Coordinator\<close> that owns the condition cache) and \<^verbatim>\<open>fan.py\<close> (the entity
  \<^verbatim>\<open>VakioOpenAirFan\<close>). An exception is a value of \<open>error\<close>; a function that can raise
  returns \<open>error + 'a\<close> and, where it mutates an object, the object as it is when the
  exception leaves the function.

  A \<^verbatim>\<open>str\<close> is represented by its UTF-8 encoding and \<^verbatim>\<open>bytes\<close> by the bytes themselves,
  both as \<open>string\<close> (a list of 8-bit characters).
\<close>

datatype error = TypeError | ValueError | IndexError | KeyError | UnicodeDecodeError

text \<open>
  The values that reach the cache and the accessors of the coordinator: \<^verbatim>\<open>None\<close>, an
  \<^verbatim>\<open>int\<close>, a \<^verbatim>\<open>str\<close>, a \<^verbatim>\<open>bool\<close> (what a setter returns), and the coroutine object that
  a call of an \<^verbatim>\<open>async def\<close> function evaluates to.
\<close>

datatype pyval = PNone | PInt int | PStr string | PBool bool | PCoroutine

text \<open>
  Calling a function declared \<^verbatim>\<open>async def\<close> without \<^verbatim>\<open>await\<close> only builds a coroutine
  object: none of the body runs, so no state changes and nothing is published. With
  \<^verbatim>\<open>await\<close> the body runs; an awaited call is written as the plain application of the
  method.
\<close>

definition not_awaited :: "'method \<Rightarrow> pyval" where
  "not_awaited method = PCoroutine"

text \<open>The numeric reading of a value (\<^verbatim>\<open>bool\<close> is a subclass of \<^verbatim>\<open>int\<close>); \<open>None\<close> where
  an ordering comparison or an arithmetic operator with an \<^verbatim>\<open>int\<close> raises \<^verbatim>\<open>TypeError\<close>.\<close>

fun as_number :: "pyval \<Rightarrow> int option" where
  "as_number (PInt n) = Some n"
| "as_number (PBool b) = Some (if b then 1 else 0)"
| "as_number PNone = None"
| "as_number (PStr s) = None"
| "as_number PCoroutine = None"

text \<open>\<^verbatim>\<open>v > n\<close>, \<^verbatim>\<open>v == n\<close> and \<^verbatim>\<open>v - n\<close> for an \<^verbatim>\<open>int\<close> \<open>n\<close>.\<close>

definition py_gt :: "pyval \<Rightarrow> int \<Rightarrow> error + bool" where
  "py_gt v n = (case as_number v of None \<Rightarrow> Inl TypeError | Some m \<Rightarrow> Inr (m > n))"

definition py_eq :: "pyval \<Rightarrow> int \<Rightarrow> bool" where
  "py_eq v n = (case as_number v of None \<Rightarrow> False | Some m \<Rightarrow> m = n)"

definition py_sub :: "pyval \<Rightarrow> int \<Rightarrow> error + int" where
  "py_sub v n = (case as_number v of None \<Rightarrow> Inl TypeError | Some m \<Rightarrow> Inr (m - n))"

text \<open>\<^verbatim>\<open>xs[i]\<close>: a negative index counts from the end, an index out of range raises.\<close>

definition py_getitem :: "'a list \<Rightarrow> int \<Rightarrow> error + 'a" where
  "py_getitem xs i =
     (if 0 \<le> i \<and> i < int (length xs) then Inr (xs ! nat i)
      else if - int (length xs) \<le> i \<and> i < 0 then Inr (xs ! nat (int (length xs) + i))
      else Inl IndexError)"

text \<open>\<^verbatim>\<open>str.split(s, sep)\<close> for a separator of one character.\<close>

fun py_split :: "string \<Rightarrow> char \<Rightarrow> string list" where
  "py_split [] sep = [[]]"
| "py_split (c # cs) sep =
     (if c = sep then [] # py_split cs sep
      else case py_split cs sep of
             seg # segs \<Rightarrow> (c # seg) # segs
           | [] \<Rightarrow> [[c]])"

text \<open>\<^verbatim>\<open>bytes.decode()\<close>: the payload is accepted when it is well-formed UTF-8 (no overlong
  form, no surrogate, nothing above U+10FFFF), and raises \<^verbatim>\<open>UnicodeDecodeError\<close> otherwise.\<close>

definition in_range :: "nat \<Rightarrow> nat \<Rightarrow> char \<Rightarrow> bool" where
  "in_range lo hi b = (lo \<le> of_char b \<and> of_char b \<le> hi)"

fun utf8 :: "string \<Rightarrow> bool" where
  "utf8 [] = True"
| "utf8 (b # bs) =
    (if in_range 0x00 0x7F b then utf8 bs
     else if in_range 0xC2 0xDF b then
       (case bs of c1 # r \<Rightarrow> in_range 0x80 0xBF c1 \<and> utf8 r | _ \<Rightarrow> False)
     else if in_range 0xE0 0xEF b then
       (case bs of
          c1 # c2 # r \<Rightarrow>
            in_range (if of_char b = (0xE0::nat) then 0xA0 else 0x80)
                     (if of_char b = (0xED::nat) then 0x9F else 0xBF) c1
            \<and> in_range 0x80 0xBF c2 \<and> utf8 r
        | _ \<Rightarrow> False)
     else if in_range 0xF0 0xF4 b then
       (case bs of
          c1 # c2 # c3 # r \<Rightarrow>
            in_range (if of_char b = (0xF0::nat) then 0x90 else 0x80)
                     (if of_char b = (0xF4::nat) then 0x8F else 0xBF) c1
            \<and> in_range 0x80 0xBF c2 \<and> in_range 0x80 0xBF c3 \<and> utf8 r
        | _ \<Rightarrow> False)
     else False)"

definition decode :: "string \<Rightarrow> error + string" where
  "decode bs = (if utf8 bs then Inr bs else Inl UnicodeDecodeError)"

text \<open>\<^verbatim>\<open>int(text)\<close> on a \<^verbatim>\<open>str\<close>, \<open>None\<close> for \<^verbatim>\<open>ValueError\<close>: the blanks
  \<^verbatim>\<open>0x09\<close>..\<^verbatim>\<open>0x0D\<close> and \<^verbatim>\<open>0x20\<close> are stripped at both ends, one sign may lead, the
  digits may be grouped by single underscores, and a literal of more than 4300 digits
  is refused. The grammar is the one of ASCII text; digits and blanks of other scripts
  are left unparsed.\<close>

definition is_space :: "char \<Rightarrow> bool" where
  "is_space c = (in_range 0x09 0x0D c \<or> in_range 0x20 0x20 c)"

definition is_digit :: "char \<Rightarrow> bool" where
  "is_digit c = in_range 0x30 0x39 c"

definition strip :: "string \<Rightarrow> string" where
  "strip s = rev (dropWhile is_space (rev (dropWhile is_space s)))"

fun py_digits :: "int \<Rightarrow> string \<Rightarrow> int option" where
  "py_digits acc [] = None"
| "py_digits acc (c # cs) =
     (if is_digit c then
        (let acc' = acc * 10 + (of_char c - 0x30)
         in case cs of
              [] \<Rightarrow> Some acc'
            | d # ds \<Rightarrow> if d = CHR ''_'' then py_digits acc' ds else py_digits acc' (d # ds))
      else None)"

definition max_str_digits :: nat where
  "max_str_digits = 4300"

definition py_int :: "string \<Rightarrow> int option" where
  "py_int text =
     (if max_str_digits < length (filter is_digit (strip text)) then None
      else case strip text of
             [] \<Rightarrow> None
           | c # cs \<Rightarrow>
               if c = CHR ''-'' then map_option uminus (py_digits 0 cs)
               else if c = CHR ''+'' then py_digits 0 cs
               else py_digits 0 (c # cs))"

section \<open>\<^verbatim>\<open>const.py\<close> and \<^verbatim>\<open>homeassistant.util.percentage\<close>\<close>

text \<open>
  \<^verbatim>\<open>const.py\<close> is not among the sources. The constants the two modules read from it are
  parameters of the model: the ordered list of named speeds, its first speed, and the
  sentinels of the \<^verbatim>\<open>state\<close> endpoint.
\<close>

record openair_const =
  OPENAIR_SPEED_LIST :: "int list"
  OPENAIR_SPEED_01 :: int
  OPENAIR_STATE_ON :: string
  OPENAIR_STATE_OFF :: string

text \<open>\<^verbatim>\<open>list.index(item)\<close> for an item of the list: the position of its first occurrence.\<close>

fun index_of :: "'a list \<Rightarrow> 'a \<Rightarrow> nat" where
  "index_of [] item = 0"
| "index_of (x # xs) item = (if x = item then 0 else Suc (index_of xs item))"

text \<open>
  Modelled from the spec: \<^verbatim>\<open>ordered_list_item_to_percentage\<close> is imported from
  \<^verbatim>\<open>homeassistant.util.percentage\<close>, which is not among the sources. It "returns the upper
  bound of the named speed's bucket", the buckets dividing 0..100 evenly over the \<open>N\<close>
  named speeds. The definition follows the library: the position of the item (from 1)
  times 100, divided by \<open>N\<close> and rounded down; an item that is not in the list is a
  \<^verbatim>\<open>ValueError\<close>.
\<close>

definition ordered_list_item_to_percentage :: "'a list \<Rightarrow> 'a \<Rightarrow> error + int" where
  "ordered_list_item_to_percentage ordered_list item =
     (if item \<in> set ordered_list then
        (let list_len = int (length ordered_list);
             list_position = int (index_of ordered_list item) + 1
         in Inr ((list_position * 100) div list_len))
      else Inl ValueError)"

text \<open>
  Modelled from the spec: \<^verbatim>\<open>percentage_to_ordered_list_item\<close> is imported from
  \<^verbatim>\<open>homeassistant.util.percentage\<close>, which is not among the sources. It takes a
  percentage to a quantization boundary of the list, the bucket width being \<open>100/N\<close>.
  The definition follows the library's loop: the boundary is the upper bound of the
  bucket the percentage falls in, that is, the result is the first named speed whose
  upper bound reaches the percentage, and the last named speed when none does; an empty
  list is a \<^verbatim>\<open>ValueError\<close>.
\<close>

fun first_bucket :: "int \<Rightarrow> int \<Rightarrow> nat \<Rightarrow> 'a list \<Rightarrow> 'a option" where
  "first_bucket list_len p offset [] = None"
| "first_bucket list_len p offset (speed # rest) =
     (let list_position = int offset + 1;
          upper_bound = (list_position * 100) div list_len
      in if p \<le> upper_bound then Some speed
         else first_bucket list_len p (Suc offset) rest)"

definition percentage_to_ordered_list_item :: "'a list \<Rightarrow> int \<Rightarrow> error + 'a" where
  "percentage_to_ordered_list_item ordered_list p =
     (if length ordered_list = 0 then Inl ValueError
      else case first_bucket (int (length ordered_list)) p 0 ordered_list of
             Some speed \<Rightarrow> Inr speed
           | None \<Rightarrow> py_getitem ordered_list (- 1))"

section \<open>\<^verbatim>\<open>vakio.py\<close>: the MQTT session\<close>

definition SPEED_ENDPOINT :: string where "SPEED_ENDPOINT = ''speed''"
definition GATE_ENDPOINT :: string where "GATE_ENDPOINT = ''gate''"
definition STATE_ENDPOINT :: string where "STATE_ENDPOINT = ''state''"
definition WORKMODE_ENDPOINT :: string where "WORKMODE_ENDPOINT = ''workmode''"
definition TEMP_ENDPOINT :: string where "TEMP_ENDPOINT = ''temp''"
definition HUD_ENDPOINT :: string where "HUD_ENDPOINT = ''hud''"

definition ENDPOINTS :: "string list" where
  "ENDPOINTS = [SPEED_ENDPOINT, GATE_ENDPOINT, STATE_ENDPOINT, WORKMODE_ENDPOINT,
                TEMP_ENDPOINT, HUD_ENDPOINT]"

text \<open>The configuration entry \<^verbatim>\<open>self.data\<close>, and an inbound \<^verbatim>\<open>mqtt.MQTTMessage\<close>.\<close>

record config =
  CONF_HOST :: string
  CONF_PORT :: int
  CONF_TOPIC :: string

record mqtt_message =
  topic :: string
  payload :: string

text \<open>
  The paho client \<^verbatim>\<open>self._client\<close> is an external collaborator. The model keeps the calls
  made on it, oldest first and also those that raise, and the two answers of the
  network that the code reads: whether \<^verbatim>\<open>connect\<close> raises \<^verbatim>\<open>OSError\<close>, and the return
  code \<^verbatim>\<open>rc\<close> of the \<^verbatim>\<open>MQTTMessageInfo\<close> that \<^verbatim>\<open>publish\<close> returns (0 is success, 4 is
  "no connection"). The client checks its arguments before it touches the network and
  raises \<^verbatim>\<open>ValueError\<close> (\<^verbatim>\<open>TypeError\<close> for a payload of a wrong type) when a check
  fails; none of the three methods of \<^verbatim>\<open>MqttClient\<close> below catches that.
\<close>

datatype paho_call =
    Connect string int
  | Loop_start
  | Subscribe "(string \<times> nat) list"
  | Unsubscribe string
  | Publish string pyval nat bool

record mqtt_client =
  data :: config
  client_calls :: "paho_call list"
  connect_raises_OSError :: bool
  publish_rc :: int
  subscribes_count :: nat

record coordinator =
  mqttc :: mqtt_client
  condition :: "string \<rightharpoonup> pyval"
  is_logged_in :: bool

definition client_call :: "paho_call \<Rightarrow> mqtt_client \<Rightarrow> mqtt_client" where
  "client_call c m = m\<lparr>client_calls := client_calls m @ [c]\<rparr>"

text \<open>The client's check of \<^verbatim>\<open>connect\<close>: a host that is not empty and a positive port.\<close>

definition connect_accepted :: "string \<Rightarrow> int \<Rightarrow> bool" where
  "connect_accepted host port = (host \<noteq> [] \<and> 0 < port)"

text \<open>The client's check of a subscription filter: not empty, at most 65535 bytes, a
  wildcard only as a whole level, and nothing after the level \<^verbatim>\<open>#\<close>.\<close>

fun has_hash_slash :: "string \<Rightarrow> bool" where
  "has_hash_slash (a # b # r) = ((a = CHR ''#'' \<and> b = CHR ''/'') \<or> has_hash_slash (b # r))"
| "has_hash_slash [a] = False"
| "has_hash_slash [] = False"

definition level_accepted :: "string \<Rightarrow> bool" where
  "level_accepted p = (\<not> (1 < length p \<and> (CHR ''+'' \<in> set p \<or> CHR ''#'' \<in> set p)))"

definition filter_accepted :: "string \<Rightarrow> bool" where
  "filter_accepted sub =
     (sub \<noteq> [] \<and> length sub \<le> 65535
      \<and> list_all level_accepted (py_split sub CHR ''/'')
      \<and> \<not> has_hash_slash sub)"

text \<open>The client's checks of \<^verbatim>\<open>publish\<close>: a topic that is not empty, has no wildcard and
  at most 65535 bytes, and a payload that is a \<^verbatim>\<open>str\<close>, a number or \<^verbatim>\<open>None\<close> of at most
  268435455 bytes.\<close>

definition publish_topic_accepted :: "string \<Rightarrow> bool" where
  "publish_topic_accepted t =
     (t \<noteq> [] \<and> CHR ''+'' \<notin> set t \<and> CHR ''#'' \<notin> set t \<and> length t \<le> 65535)"

fun payload_refused :: "pyval \<Rightarrow> error option" where
  "payload_refused (PStr s) = (if 268435455 < length s then Some ValueError else None)"
| "payload_refused PCoroutine = Some TypeError"
| "payload_refused (PInt n) = None"
| "payload_refused (PBool b) = None"
| "payload_refused PNone = None"

text \<open>The list \<^verbatim>\<open>[(f"{self.data[CONF_TOPIC]}/{endpoint}", 0) for endpoint in ENDPOINTS]\<close>.\<close>

definition subscription_filters :: "config \<Rightarrow> (string \<times> nat) list" where
  "subscription_filters d = map (\<lambda>endpoint. (CONF_TOPIC d @ ''/'' @ endpoint, 0)) ENDPOINTS"

text \<open>\<^verbatim>\<open>MqttClient.connect\<close>: only \<^verbatim>\<open>OSError\<close> is caught, so the \<^verbatim>\<open>ValueError\<close> of a refused
  host or port leaves the method; the receive loop starts on success.\<close>

definition MqttClient_connect :: "mqtt_client \<Rightarrow> (error + bool) \<times> mqtt_client" where
  "MqttClient_connect m =
     (let m1 = client_call (Connect (CONF_HOST (data m)) (CONF_PORT (data m))) m
      in if \<not> connect_accepted (CONF_HOST (data m)) (CONF_PORT (data m)) then (Inl ValueError, m1)
         else if connect_raises_OSError m then (Inr False, m1)
         else (Inr True, client_call Loop_start m1))"

text \<open>\<^verbatim>\<open>MqttClient.subscribe\<close>: the counter is raised first; there is no \<^verbatim>\<open>try\<close>, so the
  \<^verbatim>\<open>ValueError\<close> of a refused filter leaves the method.\<close>

definition MqttClient_subscribe :: "mqtt_client \<Rightarrow> (error + unit) \<times> mqtt_client" where
  "MqttClient_subscribe m =
     (let m1 = m\<lparr>subscribes_count := subscribes_count m + 1\<rparr>;
          m2 = client_call (Subscribe (subscription_filters (data m))) m1
      in if list_all (\<lambda>(t, qos). filter_accepted t) (subscription_filters (data m))
         then (Inr (), m2)
         else (Inl ValueError, m2))"

text \<open>\<^verbatim>\<open>MqttClient.publish\<close>: there is no \<^verbatim>\<open>try\<close>; the result \<^verbatim>\<open>msg_info\<close> of the client's
  \<^verbatim>\<open>publish\<close> is bound and never read, and the method ends with \<^verbatim>\<open>return True\<close>.\<close>

definition MqttClient_publish ::
    "string \<Rightarrow> pyval \<Rightarrow> mqtt_client \<Rightarrow> (error + bool) \<times> mqtt_client" where
  "MqttClient_publish endpoint msg m =
     (let topic = CONF_TOPIC (data m) @ ''/'' @ endpoint;
          qos = 0;
          retain = True;
          m1 = client_call (Publish topic msg qos retain) m
      in if \<not> publish_topic_accepted topic then (Inl ValueError, m1)
         else case payload_refused msg of
                Some err \<Rightarrow> (Inl err, m1)
              | None \<Rightarrow>
                  (let msg_info = publish_rc m
                   in (Inr True, m1)))"

text \<open>
  \<^verbatim>\<open>MqttClient.on_message\<close>. The client holds a reference to its coordinator and writes
  into the coordinator's cache, so the handler is a function of the coordinator. The
  payload is decoded before the \<^verbatim>\<open>try\<close> block, which catches the \<^verbatim>\<open>ValueError\<close> of
  \<^verbatim>\<open>int\<close> only.
\<close>

definition MqttClient_on_message ::
    "mqtt_message \<Rightarrow> coordinator \<Rightarrow> (error + unit) \<times> coordinator" where
  "MqttClient_on_message message co =
     (case py_getitem (py_split (topic message) CHR ''/'') (- 1) of
        Inl err \<Rightarrow> (Inl err, co)
      | Inr key \<Rightarrow>
          (let co1 = co\<lparr>mqttc := client_call (Unsubscribe (topic message)) (mqttc co)\<rparr>
           in case decode (payload message) of
                Inl err \<Rightarrow> (Inl err, co1)
              | Inr text \<Rightarrow>
                  (let v = (case py_int text of Some n \<Rightarrow> PInt n | None \<Rightarrow> PStr text)
                   in (Inr (), co1\<lparr>condition := (condition co1)(key \<mapsto> v)\<rparr>))))"

section \<open>\<^verbatim>\<open>vakio.py\<close>: the coordinator\<close>

text \<open>\<^verbatim>\<open>Coordinator.__init__\<close>: every endpoint unknown, not logged in.\<close>

definition Coordinator_init :: "config \<Rightarrow> bool \<Rightarrow> int \<Rightarrow> coordinator" where
  "Coordinator_init d refused rc =
     \<lparr>mqttc = \<lparr>data = d, client_calls = [], connect_raises_OSError = refused,
               publish_rc = rc, subscribes_count = 0\<rparr>,
      condition = [GATE_ENDPOINT \<mapsto> PNone, SPEED_ENDPOINT \<mapsto> PNone,
                   WORKMODE_ENDPOINT \<mapsto> PNone, STATE_ENDPOINT \<mapsto> PNone,
                   TEMP_ENDPOINT \<mapsto> PNone, HUD_ENDPOINT \<mapsto> PNone],
      is_logged_in = False\<rparr>"

text \<open>\<^verbatim>\<open>Coordinator.async_login\<close>: \<^verbatim>\<open>is_logged_in\<close> is set after both awaits, so an
  exception of \<^verbatim>\<open>connect\<close> or \<^verbatim>\<open>subscribe\<close> leaves the coordinator not logged in.\<close>

definition Coordinator_async_login :: "coordinator \<Rightarrow> (error + bool) \<times> coordinator" where
  "Coordinator_async_login co =
     (if is_logged_in co then (Inr True, co)
      else case MqttClient_connect (mqttc co) of
             (Inl err, m1) \<Rightarrow> (Inl err, co\<lparr>mqttc := m1\<rparr>)
           | (Inr status, m1) \<Rightarrow>
               (case MqttClient_subscribe m1 of
                  (Inl err, m2) \<Rightarrow> (Inl err, co\<lparr>mqttc := m2\<rparr>)
                | (Inr done, m2) \<Rightarrow> (Inr status, co\<lparr>mqttc := m2, is_logged_in := True\<rparr>)))"

text \<open>\<^verbatim>\<open>MqttClient.get_condition\<close> and the timer callback \<^verbatim>\<open>Coordinator._async_update\<close>.\<close>

definition MqttClient_get_condition ::
    "coordinator \<Rightarrow> (error + (string \<rightharpoonup> pyval)) \<times> coordinator" where
  "MqttClient_get_condition co =
     (case MqttClient_subscribe (mqttc co) of
        (Inl err, m1) \<Rightarrow> (Inl err, co\<lparr>mqttc := m1\<rparr>)
      | (Inr done, m1) \<Rightarrow> (Inr (condition co), co\<lparr>mqttc := m1\<rparr>))"

definition Coordinator_async_update :: "coordinator \<Rightarrow> (error + unit) \<times> coordinator" where
  "Coordinator_async_update co =
     (case MqttClient_get_condition co of
        (Inl err, co1) \<Rightarrow> (Inl err, co1)
      | (Inr cache, co1) \<Rightarrow> (Inr (), co1))"

text \<open>\<^verbatim>\<open>self.condition[endpoint]\<close>.\<close>

definition condition_at :: "coordinator \<Rightarrow> string \<Rightarrow> error + pyval" where
  "condition_at co endpoint = (case condition co endpoint of None \<Rightarrow> Inl KeyError | Some v \<Rightarrow> Inr v)"

text \<open>The accessors \<^verbatim>\<open>speed\<close>, \<^verbatim>\<open>gate\<close>, \<^verbatim>\<open>state\<close>, \<^verbatim>\<open>workmode\<close> (all \<^verbatim>\<open>async def\<close>), as
  they run when awaited: a getter without argument, a setter with one, which passes on
  what \<^verbatim>\<open>MqttClient.publish\<close> returns or raises.\<close>

definition Coordinator_speed :: "pyval \<Rightarrow> coordinator \<Rightarrow> (error + pyval) \<times> coordinator" where
  "Coordinator_speed v co =
     (if v = PNone then (condition_at co SPEED_ENDPOINT, co)
      else case MqttClient_publish SPEED_ENDPOINT v (mqttc co) of
             (Inl err, m1) \<Rightarrow> (Inl err, co\<lparr>mqttc := m1\<rparr>)
           | (Inr sent, m1) \<Rightarrow> (Inr (PBool sent), co\<lparr>mqttc := m1\<rparr>))"

definition Coordinator_gate :: "pyval \<Rightarrow> coordinator \<Rightarrow> (error + pyval) \<times> coordinator" where
  "Coordinator_gate v co =
     (if v = PNone then (condition_at co GATE_ENDPOINT, co)
      else case MqttClient_publish GATE_ENDPOINT v (mqttc co) of
             (Inl err, m1) \<Rightarrow> (Inl err, co\<lparr>mqttc := m1\<rparr>)
           | (Inr sent, m1) \<Rightarrow> (Inr (PBool sent), co\<lparr>mqttc := m1\<rparr>))"

definition Coordinator_state :: "pyval \<Rightarrow> coordinator \<Rightarrow> (error + pyval) \<times> coordinator" where
  "Coordinator_state v co =
     (if v = PNone then (condition_at co STATE_ENDPOINT, co)
      else case MqttClient_publish STATE_ENDPOINT v (mqttc co) of
             (Inl err, m1) \<Rightarrow> (Inl err, co\<lparr>mqttc := m1\<rparr>)
           | (Inr sent, m1) \<Rightarrow> (Inr (PBool sent), co\<lparr>mqttc := m1\<rparr>))"

definition Coordinator_workmode :: "pyval \<Rightarrow> coordinator \<Rightarrow> (error + pyval) \<times> coordinator" where
  "Coordinator_workmode v co =
     (if v = PNone then (condition_at co WORKMODE_ENDPOINT, co)
      else case MqttClient_publish WORKMODE_ENDPOINT v (mqttc co) of
             (Inl err, m1) \<Rightarrow> (Inl err, co\<lparr>mqttc := m1\<rparr>)
           | (Inr sent, m1) \<Rightarrow> (Inr (PBool sent), co\<lparr>mqttc := m1\<rparr>))"

definition Coordinator_get_state :: "coordinator \<Rightarrow> error + pyval" where
  "Coordinator_get_state co = condition_at co STATE_ENDPOINT"

definition Coordinator_turn_on ::
    "openair_const \<Rightarrow> coordinator \<Rightarrow> (error + pyval) \<times> coordinator" where
  "Coordinator_turn_on C = Coordinator_state (PStr (OPENAIR_STATE_ON C))"

definition Coordinator_turn_off ::
    "openair_const \<Rightarrow> coordinator \<Rightarrow> (error + pyval) \<times> coordinator" where
  "Coordinator_turn_off C = Coordinator_state (PStr (OPENAIR_STATE_OFF C))"

text \<open>\<^verbatim>\<open>Coordinator.is_on\<close> is a plain function: it reads the cache through \<^verbatim>\<open>get_state\<close>.\<close>

definition Coordinator_is_on :: "openair_const \<Rightarrow> coordinator \<Rightarrow> error + bool" where
  "Coordinator_is_on C co =
     (case Coordinator_get_state co of
        Inl err \<Rightarrow> Inl err
      | Inr current_state \<Rightarrow> Inr (current_state = PStr (OPENAIR_STATE_ON C)))"

section \<open>\<^verbatim>\<open>fan.py\<close>: the entity\<close>

text \<open>
  The fields of \<^verbatim>\<open>VakioOpenAirFan\<close> under the names of their properties
  (\<open>percentage\<close> is \<^verbatim>\<open>self._percentage\<close>, and so on), the coordinator the entity holds,
  and the number of calls of the host's \<^verbatim>\<open>schedule_update_ha_state\<close> so far.
\<close>

record fan =
  fan_coordinator :: coordinator
  percentage :: "int option"
  preset_modes :: "string list option"
  preset_mode :: "string option"
  oscillating :: "bool option"
  current_direction :: "string option"
  ha_state_updates :: nat

definition PRESET_MODS :: "string list" where
  "PRESET_MODS = [''Off'', ''Gate 1'', ''Gate 2'', ''Gate 3'', ''Gate 4'', ''Super Auto'']"

text \<open>The entity as \<^verbatim>\<open>async_setup_platform\<close> builds it (\<^verbatim>\<open>LIMITED_SUPPORT\<close>: neither
  oscillation nor direction).\<close>

definition VakioOpenAirFan_init :: "coordinator \<Rightarrow> fan" where
  "VakioOpenAirFan_init co =
     \<lparr>fan_coordinator = co, percentage = None, preset_modes = Some PRESET_MODS,
      preset_mode = None, oscillating = None, current_direction = None,
      ha_state_updates = 0\<rparr>"

text \<open>\<^verbatim>\<open>update_all_options\<close>: all that is not commented out is the notification of the host.\<close>

definition update_all_options :: "fan \<Rightarrow> fan" where
  "update_all_options e = e\<lparr>ha_state_updates := ha_state_updates e + 1\<rparr>"

text \<open>
  \<^verbatim>\<open>update_speed\<close>, from its second statement on, for the value bound to \<^verbatim>\<open>speed\<close>. The
  guard \<^verbatim>\<open>speed is None or speed > len(OPENAIR_SPEED_LIST) or speed == 0\<close> is evaluated
  from the left and before \<^verbatim>\<open>self._percentage is not None\<close>.
\<close>

definition speed_is_invalid :: "openair_const \<Rightarrow> pyval \<Rightarrow> error + bool" where
  "speed_is_invalid C speed =
     (if speed = PNone then Inr True
      else case py_gt speed (int (length (OPENAIR_SPEED_LIST C))) of
             Inl err \<Rightarrow> Inl err
           | Inr too_high \<Rightarrow> Inr (too_high \<or> py_eq speed 0))"

definition update_speed_from :: "openair_const \<Rightarrow> pyval \<Rightarrow> fan \<Rightarrow> (error + bool) \<times> fan" where
  "update_speed_from C speed e =
     (case speed_is_invalid C speed of
        Inl err \<Rightarrow> (Inl err, e)
      | Inr invalid \<Rightarrow>
          if invalid \<and> percentage e \<noteq> None then (Inr True, e\<lparr>percentage := None\<rparr>)
          else if speed = PNone \<or> speed = PBool False then (Inr False, e)
          else
            (case py_sub speed 1 of
               Inl err \<Rightarrow> (Inl err, e)
             | Inr i \<Rightarrow>
                 (case py_getitem (OPENAIR_SPEED_LIST C) i of
                    Inl err \<Rightarrow> (Inl err, e)
                  | Inr named_speed \<Rightarrow>
                      (case ordered_list_item_to_percentage (OPENAIR_SPEED_LIST C) named_speed of
                         Inl err \<Rightarrow> (Inl err, e)
                       | Inr new_speed_percentage \<Rightarrow>
                           if percentage e \<noteq> Some new_speed_percentage
                           then (Inr True, e\<lparr>percentage := Some new_speed_percentage\<rparr>)
                           else (Inr False, e)))))"

text \<open>
  \<^verbatim>\<open>update_speed\<close>. Its first statement is \<^verbatim>\<open>speed = self.coordinator.speed()\<close>:
  \<^verbatim>\<open>Coordinator.speed\<close> is declared \<^verbatim>\<open>async def\<close> and the call is not awaited.
\<close>

definition update_speed :: "openair_const \<Rightarrow> fan \<Rightarrow> (error + bool) \<times> fan" where
  "update_speed C e =
     (let speed = not_awaited (Coordinator_speed PNone)
      in update_speed_from C speed e)"

text \<open>\<^verbatim>\<open>update_preset_mode\<close>: the comparison is commented out, \<^verbatim>\<open>return True\<close> is left.\<close>

definition update_preset_mode :: "fan \<Rightarrow> bool \<times> fan" where
  "update_preset_mode e = (True, e)"

definition update_on_off :: "openair_const \<Rightarrow> fan \<Rightarrow> (error + bool) \<times> fan" where
  "update_on_off C e =
     (case Coordinator_is_on C (fan_coordinator e) of
        Inl err \<Rightarrow> (Inl err, e)
      | Inr is_on \<Rightarrow>
          if \<not> is_on then
            (case percentage e of
               None \<Rightarrow> (Inr False, e)
             | Some p \<Rightarrow> if p > 0 then (Inr True, e\<lparr>percentage := Some 0\<rparr>) else (Inr False, e))
          else if percentage e = None \<or> percentage e = Some 0 then
            (case (if percentage e = None
                   then map_sum id Some
                          (ordered_list_item_to_percentage (OPENAIR_SPEED_LIST C) (OPENAIR_SPEED_01 C))
                   else Inr (percentage e)) of
               Inl err \<Rightarrow> (Inl err, e)
             | Inr pct \<Rightarrow>
                 (let e1 = e\<lparr>percentage := pct\<rparr>;
                      e2 = (if preset_mode e1 = Some (OPENAIR_STATE_OFF C)
                            then e1\<lparr>preset_mode := None\<rparr> else e1)
                  in (Inr True, e2)))
          else (Inr False, e))"

text \<open>\<^verbatim>\<open>VakioOpenAirFan._async_update\<close>, the reconciliation tick.\<close>

definition async_update :: "openair_const \<Rightarrow> fan \<Rightarrow> (error + unit) \<times> fan" where
  "async_update C e =
     (case update_speed C e of
        (Inl err, e1) \<Rightarrow> (Inl err, e1)
      | (Inr speed_changed, e1) \<Rightarrow>
          (case update_preset_mode e1 of
             (preset_changed, e2) \<Rightarrow>
               (case update_on_off C e2 of
                  (Inl err, e3) \<Rightarrow> (Inl err, e3)
                | (Inr on_off_changed, e3) \<Rightarrow>
                    (let is_update = (speed_changed \<or> preset_changed \<or> on_off_changed)
                     in (Inr (), if is_update then update_all_options e3 else e3)))))"

text \<open>
  \<^verbatim>\<open>async_set_percentage\<close>. \<^verbatim>\<open>turn_off\<close>, \<^verbatim>\<open>turn_on\<close> and \<^verbatim>\<open>speed\<close> of the coordinator
  are \<^verbatim>\<open>async def\<close>; the three calls are statements without \<^verbatim>\<open>await\<close>, and their
  coroutine objects are dropped.
\<close>

definition async_set_percentage :: "openair_const \<Rightarrow> int \<Rightarrow> fan \<Rightarrow> (error + unit) \<times> fan" where
  "async_set_percentage C p e =
     (let e1 = e\<lparr>percentage := Some p\<rparr>
      in if p = 0 then
           (let dropped = not_awaited (Coordinator_turn_off C)
            in (Inr (), update_all_options e1))
         else
           (let dropped = not_awaited (Coordinator_turn_on C)
            in case percentage_to_ordered_list_item (OPENAIR_SPEED_LIST C) p of
                 Inl err \<Rightarrow> (Inl err, e1)
               | Inr speed \<Rightarrow>
                   (let dropped = not_awaited (Coordinator_speed (PInt speed))
                    in case update_speed C e1 of
                         (Inl err, e2) \<Rightarrow> (Inl err, e2)
                       | (Inr changed, e2) \<Rightarrow>
                           (Inr (), if changed then update_all_options e2 else e2))))"

text \<open>\<^verbatim>\<open>async_set_preset_mode\<close>: \<^verbatim>\<open>self.preset_modes and preset_mode in self.preset_modes\<close>
  is false for \<^verbatim>\<open>None\<close> and for an empty list.\<close>

definition async_set_preset_mode :: "openair_const \<Rightarrow> string \<Rightarrow> fan \<Rightarrow> (error + unit) \<times> fan" where
  "async_set_preset_mode C mode e =
     (if (case preset_modes e of None \<Rightarrow> False | Some modes \<Rightarrow> modes \<noteq> [] \<and> mode \<in> set modes)
      then
        (let e1 = e\<lparr>preset_mode := Some mode\<rparr>
         in if preset_mode e1 = Some (OPENAIR_STATE_OFF C) then (Inr (), e1)
            else (Inr (), update_all_options e1))
      else (Inl ValueError, e))"

definition async_turn_on :: "openair_const \<Rightarrow> int option \<Rightarrow> fan \<Rightarrow> (error + unit) \<times> fan" where
  "async_turn_on C p e =
     (let dropped = not_awaited (Coordinator_turn_on C)
      in case (case p of
                 Some q \<Rightarrow> percentage_to_ordered_list_item (OPENAIR_SPEED_LIST C) q
               | None \<Rightarrow> Inr (OPENAIR_SPEED_01 C)) of
           Inl err \<Rightarrow> (Inl err, e)
         | Inr new_speed \<Rightarrow>
             (let dropped = not_awaited (Coordinator_speed (PInt new_speed))
              in (Inr (), update_all_options e)))"

definition async_turn_off :: "openair_const \<Rightarrow> fan \<Rightarrow> (error + unit) \<times> fan" where
  "async_turn_off C e =
     (let dropped = not_awaited (Coordinator_turn_off C)
      in async_update C e)"

text \<open>A sample of the missing constants, seven named speeds, and a sample configuration,
  for evaluating the model on concrete inputs.\<close>

definition sample_const :: openair_const where
  "sample_const =
     \<lparr>OPENAIR_SPEED_LIST = [1, 2, 3, 4, 5, 6, 7], OPENAIR_SPEED_01 = 1,
      OPENAIR_STATE_ON = ''on'', OPENAIR_STATE_OFF = ''off''\<rparr>"

definition sample_config :: config where
  "sample_config = \<lparr>CONF_HOST = ''broker'', CONF_PORT = 1883, CONF_TOPIC = ''vakio''\<rparr>"

text \<open>A coordinator just constructed, on a network where \<^verbatim>\<open>connect\<close> succeeds and a
  publish is accepted, and the entity built on it.\<close>

definition sample_coordinator :: coordinator where
  "sample_coordinator = Coordinator_init sample_config False 0"

definition sample_fan :: fan where
  "sample_fan = VakioOpenAirFan_init sample_coordinator"

text \<open>A coordinator on a network that is down: \<^verbatim>\<open>connect\<close> raises \<^verbatim>\<open>OSError\<close> and a
  publish returns \<^verbatim>\<open>MQTT_ERR_NO_CONN\<close>.\<close>

definition offline_coordinator :: coordinator where
  "offline_coordinator = Coordinator_init sample_config True 4"


text \<open>An entity with a value received on an endpoint.\<close>

definition received :: "string \<Rightarrow> pyval \<Rightarrow> fan \<Rightarrow> fan" where
  "received endpoint v e =
     e\<lparr>fan_coordinator :=
         (fan_coordinator e)\<lparr>condition := (condition (fan_coordinator e))(endpoint \<mapsto> v)\<rparr>\<rparr>"

section \<open>The speed mapping\<close>

lemma index_of_nth: "distinct xs \<Longrightarrow> k < length xs \<Longrightarrow> index_of xs (xs ! k) = k"
proof (induction xs arbitrary: k)
  case Nil
  then show ?case by simp
next
  case (Cons x xs)
  show ?case
  proof (cases k)
    case 0
    then show ?thesis by simp
  next
    case (Suc j)
    with Cons.prems have "j < length xs" "xs ! j \<in> set xs" "x \<notin> set xs" by auto
    then have "x \<noteq> xs ! j" by auto
    with Suc Cons show ?thesis by simp
  qed
qed

text \<open>The loop of \<^verbatim>\<open>percentage_to_ordered_list_item\<close> stops at the first position whose
  upper bound reaches the percentage; every position before it lies below.\<close>

lemma first_bucket_Some:
  "first_bucket n p off xs = Some s \<Longrightarrow>
     \<exists>k<length xs. s = xs ! k \<and> p \<le> (int (off + k) + 1) * 100 div n
        \<and> (\<forall>j<k. (int (off + j) + 1) * 100 div n < p)"
proof (induction xs arbitrary: off)
  case Nil
  then show ?case by simp
next
  case (Cons x xs)
  show ?case
  proof (cases "p \<le> (int off + 1) * 100 div n")
    case True
    with Cons.prems have "s = x" by (simp add: Let_def)
    with True show ?thesis by (intro exI[of _ 0]) simp
  next
    case False
    with Cons.prems have "first_bucket n p (Suc off) xs = Some s" by (simp add: Let_def)
    from Cons.IH[OF this] obtain k where k: "k < length xs" "s = xs ! k"
      "p \<le> (int (Suc off + k) + 1) * 100 div n"
      "\<forall>j<k. (int (Suc off + j) + 1) * 100 div n < p" by blast
    have "\<forall>j<Suc k. (int (off + j) + 1) * 100 div n < p"
    proof (intro allI impI)
      fix j assume "j < Suc k"
      show "(int (off + j) + 1) * 100 div n < p"
      proof (cases j)
        case 0
        with False show ?thesis by simp
      next
        case (Suc i)
        with \<open>j < Suc k\<close> have "i < k" by simp
        with k(4) have "(int (Suc off + i) + 1) * 100 div n < p" by blast
        with Suc show ?thesis by simp
      qed
    qed
    with k show ?thesis by (intro exI[of _ "Suc k"]) simp
  qed
qed

lemma first_bucket_None:
  "first_bucket n p off xs = None \<Longrightarrow> j < length xs \<Longrightarrow> (int (off + j) + 1) * 100 div n < p"
proof (induction xs arbitrary: off j)
  case Nil
  then show ?case by simp
next
  case (Cons x xs)
  from Cons.prems(1) have here: "\<not> p \<le> (int off + 1) * 100 div n"
    and rest: "first_bucket n p (Suc off) xs = None"
    by (auto simp: Let_def split: if_splits)
  show ?case
  proof (cases j)
    case 0
    with here show ?thesis by simp
  next
    case (Suc i)
    with Cons.prems(2) have "i < length xs" by simp
    from Cons.IH[OF rest this] Suc show ?thesis by simp
  qed
qed

lemma div_bounds:
  fixes n x :: int
  assumes "0 < n"
  shows "x div n * n \<le> x" and "x < x div n * n + n"
proof -
  have "x div n * n + x mod n = x" by simp
  moreover have "0 \<le> x mod n" "x mod n < n" using assms by simp_all
  ultimately show "x div n * n \<le> x" and "x < x div n * n + n" by linarith+
qed

text \<open>Two neighbouring upper bounds are less than one bucket and one percent apart.\<close>

lemma bucket_width:
  fixes n a p :: int
  assumes "0 < n" "a div n < p" "p \<le> (a + 100) div n"
  shows "((a + 100) div n - p) * n \<le> 100"
proof -
  have up: "(a + 100) div n * n \<le> a + 100"
    using assms(1) by (rule div_bounds(1))
  have "a < a div n * n + n"
    using assms(1) by (rule div_bounds(2))
  moreover have "(a div n + 1) * n \<le> p * n"
    using assms(1,2) by (intro mult_right_mono) auto
  ultimately have "a < p * n" by (simp add: distrib_right)
  with up show ?thesis by (simp add: left_diff_distrib)
qed

lemma first_bucket_width:
  fixes n p :: int
  assumes "0 < n" "0 \<le> p" "p \<le> 100 div n"
  shows "(100 div n - p) * n \<le> 100"
proof -
  have "100 div n * n \<le> 100" using assms(1) by (rule div_bounds(1))
  moreover have "0 \<le> p * n" using assms by simp
  ultimately show ?thesis by (simp add: left_diff_distrib)
qed

text \<open>
  Claim C3. For every percentage \<open>p\<close> in [0,100], converting \<open>p\<close> to a named speed over
  the ordered speed list (\<^verbatim>\<open>percentage_to_ordered_list_item\<close>) and converting that
  named speed back (\<^verbatim>\<open>ordered_list_item_to_percentage\<close>) succeeds and yields a value
  whose distance from \<open>p\<close> is at most one bucket width, 100 divided by the number \<open>N\<close>
  of named speeds. The named speeds of the list are pairwise different.
\<close>

theorem percentage_round_trip:
  assumes "distinct speeds" "speeds \<noteq> []" "0 \<le> p" "p \<le> 100"
  shows "\<exists>speed q. percentage_to_ordered_list_item speeds p = Inr speed
           \<and> ordered_list_item_to_percentage speeds speed = Inr q
           \<and> \<bar>real_of_int q - real_of_int p\<bar> \<le> 100 / real (length speeds)"
proof -
  define n where "n = int (length speeds)"
  have n: "0 < n" using assms(2) by (simp add: n_def)
  have "first_bucket n p 0 speeds \<noteq> None"
  proof
    assume "first_bucket n p 0 speeds = None"
    from first_bucket_None[OF this, of "length speeds - 1"] assms(2)
    have "(int (0 + (length speeds - 1)) + 1) * 100 div n < p" by simp
    moreover have "int (0 + (length speeds - 1)) + 1 = n"
      using assms(2) by (simp add: n_def of_nat_diff Suc_leI)
    ultimately have "n * 100 div n < p" by (simp only:)
    then show False using n assms(4) by simp
  qed
  then obtain speed where found: "first_bucket n p 0 speeds = Some speed" by blast
  from first_bucket_Some[OF this] obtain k where k: "k < length speeds" "speed = speeds ! k"
    "p \<le> (int k + 1) * 100 div n" "\<forall>j<k. (int j + 1) * 100 div n < p" by auto
  define q where "q = (int k + 1) * 100 div n"
  have there: "percentage_to_ordered_list_item speeds p = Inr speed"
    using assms(2) found by (simp add: percentage_to_ordered_list_item_def n_def)
  have return: "ordered_list_item_to_percentage speeds speed = Inr q"
    using k(1,2) index_of_nth[OF assms(1) k(1)]
    by (simp add: ordered_list_item_to_percentage_def q_def n_def Let_def)
  have width: "(q - p) * n \<le> 100"
  proof (cases k)
    case 0
    with k(3) assms(3) n show ?thesis unfolding q_def by (simp add: first_bucket_width)
  next
    case (Suc j)
    with k(4) have "(int j + 1) * 100 div n < p" by simp
    moreover have "int k * 100 = (int j + 1) * 100" using Suc by simp
    ultimately have below: "(int k * 100) div n < p" by (simp only:)
    have "(int k + 1) * 100 = int k * 100 + 100" by (simp add: distrib_right)
    with k(3) have "p \<le> (int k * 100 + 100) div n" by simp
    from bucket_width[OF n below this] show ?thesis
      unfolding q_def by (simp add: distrib_right)
  qed
  have "p \<le> q" using k(3) by (simp add: q_def)
  have "real_of_int (q - p) * real_of_int n \<le> 100"
    using width by (metis of_int_mult of_int_le_iff of_int_numeral)
  then have "real_of_int (q - p) \<le> 100 / real_of_int n"
    using n by (simp add: pos_le_divide_eq)
  moreover have "real_of_int n = real (length speeds)" by (simp add: n_def)
  ultimately have "\<bar>real_of_int q - real_of_int p\<bar> \<le> 100 / real (length speeds)"
    using \<open>p \<le> q\<close> by simp
  with there return show ?thesis by blast
qed

text \<open>With the seven sample speeds, 50 percent is the fourth speed, whose bucket ends
  at 57.\<close>

theorem percentage_round_trip_witness:
  "distinct (OPENAIR_SPEED_LIST sample_const) \<and> OPENAIR_SPEED_LIST sample_const \<noteq> []
   \<and> percentage_to_ordered_list_item (OPENAIR_SPEED_LIST sample_const) 50 = Inr 4
   \<and> ordered_list_item_to_percentage (OPENAIR_SPEED_LIST sample_const) 4 = Inr 57
   \<and> (\<exists>speed q. percentage_to_ordered_list_item (OPENAIR_SPEED_LIST sample_const) 50 = Inr speed
         \<and> ordered_list_item_to_percentage (OPENAIR_SPEED_LIST sample_const) speed = Inr q
         \<and> \<bar>real_of_int q - real_of_int 50\<bar> \<le> 100 / real (length (OPENAIR_SPEED_LIST sample_const)))"
proof -
  have d: "distinct (OPENAIR_SPEED_LIST sample_const)"
    and ne: "OPENAIR_SPEED_LIST sample_const \<noteq> []"
    by (simp_all add: sample_const_def)
  have "percentage_to_ordered_list_item (OPENAIR_SPEED_LIST sample_const) 50 = Inr 4"
    by (simp add: sample_const_def percentage_to_ordered_list_item_def)
  moreover have "ordered_list_item_to_percentage (OPENAIR_SPEED_LIST sample_const) 4 = Inr 57"
    by (simp add: sample_const_def ordered_list_item_to_percentage_def)
  ultimately show ?thesis
    using d ne percentage_round_trip[OF d ne, of 50] by simp
qed

section \<open>The MQTT session and the coordinator\<close>

subsection \<open>Login\<close>


text \<open>When the client refuses the host, the port or one of the six filters, the login
  raises \<^verbatim>\<open>ValueError\<close> and the coordinator stays not logged in.\<close>

lemma async_login_raises:
  assumes "\<not> is_logged_in co"
    and "\<not> (connect_accepted (CONF_HOST (data (mqttc co))) (CONF_PORT (data (mqttc co)))
            \<and> list_all (\<lambda>(t, qos). filter_accepted t) (subscription_filters (data (mqttc co))))"
  shows "fst (Coordinator_async_login co) = Inl ValueError
       \<and> \<not> is_logged_in (snd (Coordinator_async_login co))"
  using assms
  by (auto simp: Coordinator_async_login_def MqttClient_connect_def MqttClient_subscribe_def
      client_call_def Let_def)







subsection \<open>Publishing\<close>

text \<open>Whatever the network answers, \<^verbatim>\<open>MqttClient.publish\<close> never returns false: it
  returns true when the client accepts topic and payload, and raises otherwise.\<close>

lemma publish_never_False: "fst (MqttClient_publish endpoint msg m) \<noteq> Inr False"
  by (simp add: MqttClient_publish_def Let_def split: option.splits)

lemma publish_returns_True:
  assumes "publish_topic_accepted (CONF_TOPIC (data m) @ ''/'' @ endpoint)"
    and "payload_refused msg = None"
  shows "fst (MqttClient_publish endpoint msg m) = Inr True"
  using assms by (simp add: MqttClient_publish_def)

lemma publish_call:
  "client_calls (snd (MqttClient_publish endpoint msg m))
     = client_calls m @ [Publish (CONF_TOPIC (data m) @ ''/'' @ endpoint) msg 0 True]"
  by (simp add: MqttClient_publish_def client_call_def Let_def split: option.splits)

text \<open>An awaited \<^verbatim>\<open>turn_off\<close> calls the client's \<^verbatim>\<open>publish\<close> with the off sentinel on the
  \<^verbatim>\<open>state\<close> endpoint, and an awaited \<^verbatim>\<open>speed\<close> with the named speed on the \<^verbatim>\<open>speed\<close>
  endpoint.\<close>

lemma turn_off_awaited:
  "client_calls (mqttc (snd (Coordinator_turn_off C co)))
     = client_calls (mqttc co)
       @ [Publish (CONF_TOPIC (data (mqttc co)) @ ''/'' @ STATE_ENDPOINT)
            (PStr (OPENAIR_STATE_OFF C)) 0 True]"
  by (simp add: Coordinator_turn_off_def Coordinator_state_def MqttClient_publish_def
      client_call_def Let_def split: option.splits)

lemma speed_awaited:
  "client_calls (mqttc (snd (Coordinator_speed (PInt speed) co)))
     = client_calls (mqttc co)
       @ [Publish (CONF_TOPIC (data (mqttc co)) @ ''/'' @ SPEED_ENDPOINT) (PInt speed) 0 True]"
  by (simp add: Coordinator_speed_def MqttClient_publish_def client_call_def Let_def)

text \<open>
  Claim C6. The boolean returned by \<^verbatim>\<open>MqttClient.publish\<close>, and hence by the setters
  \<^verbatim>\<open>speed\<close>, \<^verbatim>\<open>gate\<close>, \<^verbatim>\<open>state\<close> and \<^verbatim>\<open>workmode\<close> of the coordinator, reports the
  success or failure of the underlying publish: when it fails, the setter returns
  false. The code does not do that. On the network that is down the client's publish
  returns the code 4, and \<^verbatim>\<open>MqttClient.publish\<close> and the four setters return true.
\<close>

theorem publish_failure_returns_True:
  "publish_rc (mqttc offline_coordinator) = 4
   \<and> fst (MqttClient_publish SPEED_ENDPOINT (PInt 3) (mqttc offline_coordinator)) = Inr True
   \<and> fst (Coordinator_speed (PInt 3) offline_coordinator) = Inr (PBool True)
   \<and> fst (Coordinator_gate (PInt 2) offline_coordinator) = Inr (PBool True)
   \<and> fst (Coordinator_state (PStr ''off'') offline_coordinator) = Inr (PBool True)
   \<and> fst (Coordinator_workmode (PStr ''manual'') offline_coordinator) = Inr (PBool True)"
  by (simp add: offline_coordinator_def Coordinator_init_def MqttClient_publish_def
      Coordinator_speed_def Coordinator_gate_def Coordinator_state_def Coordinator_workmode_def
      publish_topic_accepted_def sample_config_def SPEED_ENDPOINT_def GATE_ENDPOINT_def
      STATE_ENDPOINT_def WORKMODE_ENDPOINT_def)

subsection \<open>Inbound messages\<close>

lemma py_split_not_Nil: "py_split s sep \<noteq> []"
  by (induction s) (auto split: list.splits)

text \<open>\<^verbatim>\<open>str.split(topic, "/")[-1]\<close> never raises: the key is the last segment.\<close>

lemma last_segment: "py_getitem (py_split s sep) (- 1) = Inr (last (py_split s sep))"
proof -
  let ?segs = "py_split s sep"
  have some: "?segs \<noteq> []" by (rule py_split_not_Nil)
  then have len: "1 \<le> length ?segs" by (simp add: Suc_leI)
  then have "nat (int (length ?segs) + - 1) = length ?segs - 1" by simp
  with some len show ?thesis
    by (simp add: py_getitem_def last_conv_nth)
qed

text \<open>A payload that decodes: the handler unsubscribes from the topic and writes the one
  entry of the last segment, the integer when \<^verbatim>\<open>int\<close> parses the text and the text
  otherwise.\<close>

lemma on_message_decodable:
  assumes "utf8 (payload message)"
  shows "MqttClient_on_message message co =
           (Inr (),
            co\<lparr>mqttc := client_call (Unsubscribe (topic message)) (mqttc co),
               condition := (condition co)
                 (last (py_split (topic message) CHR ''/'') \<mapsto>
                    (case py_int (payload message) of
                       Some n \<Rightarrow> PInt n
                     | None \<Rightarrow> PStr (payload message)))\<rparr>)"
  using assms by (simp add: MqttClient_on_message_def last_segment decode_def)

text \<open>A payload that does not decode: the handler has unsubscribed, raises, and writes
  nothing.\<close>

lemma on_message_undecodable:
  assumes "\<not> utf8 (payload message)"
  shows "MqttClient_on_message message co =
           (Inl UnicodeDecodeError,
            co\<lparr>mqttc := client_call (Unsubscribe (topic message)) (mqttc co)\<rparr>)"
  using assms by (simp add: MqttClient_on_message_def last_segment decode_def)

text \<open>
  Claim C8. For every inbound MQTT message the handler writes exactly one entry of the
  condition cache, keyed by the last path segment of the topic (the integer parse of the
  payload when it parses, the raw payload string otherwise), and unsubscribes from that
  topic. The code does not do that for every message. The payload of one byte
  \<^verbatim>\<open>0xFF\<close> on the topic \<^verbatim>\<open>vakio/state\<close> is not UTF-8: the handler unsubscribes,
  \<^verbatim>\<open>decode\<close> raises \<^verbatim>\<open>UnicodeDecodeError\<close> outside the \<^verbatim>\<open>try\<close> block, and the cache entry
  \<^verbatim>\<open>state\<close> keeps its value.
\<close>

theorem on_message_undecodable_payload:
  "MqttClient_on_message \<lparr>topic = ''vakio/state'', payload = [CHR 0xFF]\<rparr> sample_coordinator
     = (Inl UnicodeDecodeError,
        sample_coordinator\<lparr>mqttc := client_call (Unsubscribe ''vakio/state'')
                                       (mqttc sample_coordinator)\<rparr>)
   \<and> condition (snd (MqttClient_on_message \<lparr>topic = ''vakio/state'', payload = [CHR 0xFF]\<rparr>
                        sample_coordinator))
     = condition sample_coordinator"
  by (simp add: on_message_undecodable in_range_def)

section \<open>The entity\<close>

subsection \<open>The speed step\<close>

text \<open>The coroutine object is not \<^verbatim>\<open>None\<close>, and comparing it with the length of the
  speed list raises. So \<^verbatim>\<open>update_speed\<close> raises on every call, whatever the cache holds,
  and so does every method that calls it.\<close>

lemma update_speed_raises: "update_speed C e = (Inl TypeError, e)"
  by (simp add: update_speed_def update_speed_from_def speed_is_invalid_def not_awaited_def
      py_gt_def)

lemma async_update_raises: "async_update C e = (Inl TypeError, e)"
  by (simp add: async_update_def update_speed_raises)

lemma update_preset_mode_flags: "update_preset_mode e = (True, e)"
  by (simp add: update_preset_mode_def)

text \<open>What the rest of \<^verbatim>\<open>update_speed\<close> does with a cached value. A speed \<open>k\<close> of
  \<open>1..N\<close> becomes the upper bound of its bucket.\<close>

lemma update_speed_from_valid:
  assumes "distinct (OPENAIR_SPEED_LIST C)" "1 \<le> k" "k \<le> int (length (OPENAIR_SPEED_LIST C))"
  shows "update_speed_from C (PInt k) e =
           (if percentage e = Some (k * 100 div int (length (OPENAIR_SPEED_LIST C)))
            then (Inr False, e)
            else (Inr True,
                  e\<lparr>percentage := Some (k * 100 div int (length (OPENAIR_SPEED_LIST C)))\<rparr>))"
proof -
  let ?xs = "OPENAIR_SPEED_LIST C"
  have i: "nat (k - 1) < length ?xs" using assms(2,3) by simp
  have get: "py_getitem ?xs (k - 1) = Inr (?xs ! nat (k - 1))"
    using assms(2,3) by (simp add: py_getitem_def)
  have pos: "int (index_of ?xs (?xs ! nat (k - 1))) + 1 = k"
    using index_of_nth[OF assms(1) i] assms(2) by simp
  have pct: "ordered_list_item_to_percentage ?xs (?xs ! nat (k - 1))
      = Inr (k * 100 div int (length ?xs))"
    using i pos by (simp add: ordered_list_item_to_percentage_def Let_def)
  show ?thesis
    using assms(2,3)
    by (simp add: update_speed_from_def speed_is_invalid_def py_gt_def py_eq_def py_sub_def
        get pct)
qed

text \<open>An absent, zero or too large speed clears a known percentage.\<close>

lemma update_speed_from_invalid:
  assumes "v = PNone \<or> v = PInt 0 \<or> (\<exists>k. v = PInt k \<and> int (length (OPENAIR_SPEED_LIST C)) < k)"
    and "percentage e \<noteq> None"
  shows "update_speed_from C v e = (Inr True, e\<lparr>percentage := None\<rparr>)"
  using assms
  by (auto simp: update_speed_from_def speed_is_invalid_def py_gt_def py_eq_def)

text \<open>With the percentage unknown the guard does not fire, and zero, a too large speed,
  a negative speed and a text go on to the subtraction and the list access.\<close>

lemma update_speed_from_samples:
  "update_speed_from sample_const (PInt 0) sample_fan
     = (Inr True, sample_fan\<lparr>percentage := Some 100\<rparr>)
   \<and> update_speed_from sample_const (PInt 8) sample_fan = (Inl IndexError, sample_fan)
   \<and> update_speed_from sample_const (PInt (- 1)) sample_fan
     = (Inr True, sample_fan\<lparr>percentage := Some 85\<rparr>)
   \<and> update_speed_from sample_const (PInt (- 8)) sample_fan = (Inl IndexError, sample_fan)
   \<and> update_speed_from sample_const (PStr ''fast'') sample_fan = (Inl TypeError, sample_fan)"
  by (simp add: update_speed_from_def speed_is_invalid_def py_gt_def py_eq_def py_sub_def
      py_getitem_def ordered_list_item_to_percentage_def sample_const_def sample_fan_def
      VakioOpenAirFan_init_def)

text \<open>
  Claim C2. For every cached speed outside the index range \<open>[1, N]\<close> of the named speed
  list (\<^verbatim>\<open>None\<close>, zero, an integer above \<open>N\<close>, a negative integer, a text that is not an
  integer) the speed step \<^verbatim>\<open>update_speed\<close> does not raise and the percentage of the
  entity becomes or stays unknown. The code does not do that. With the cached speed 0
  and the percentage 50, \<^verbatim>\<open>update_speed\<close> raises \<^verbatim>\<open>TypeError\<close> and the percentage
  stays 50.
\<close>

theorem update_speed_zero_raises:
  "update_speed sample_const (received SPEED_ENDPOINT (PInt 0) (sample_fan\<lparr>percentage := Some 50\<rparr>))
     = (Inl TypeError, received SPEED_ENDPOINT (PInt 0) (sample_fan\<lparr>percentage := Some 50\<rparr>))
   \<and> condition_at (fan_coordinator
         (received SPEED_ENDPOINT (PInt 0) (sample_fan\<lparr>percentage := Some 50\<rparr>))) SPEED_ENDPOINT
     = Inr (PInt 0)
   \<and> percentage (snd (update_speed sample_const
         (received SPEED_ENDPOINT (PInt 0) (sample_fan\<lparr>percentage := Some 50\<rparr>))))
     = Some 50"
  by (simp add: update_speed_raises received_def condition_at_def)

subsection \<open>The reconciliation tick\<close>

text \<open>
  Claim C1. A reconciliation tick (\<^verbatim>\<open>_async_update\<close>) notifies the host if and only if
  one of the speed, preset-mode or on/off comparisons detected a change; in particular
  a tick on which cache and entity agree notifies nobody. The code does not do that.
  With the cached speed 3 (42 percent) and the percentage of the entity unknown, the
  speed comparison on the cached value finds a change, yet the tick raises
  \<^verbatim>\<open>TypeError\<close> in \<^verbatim>\<open>update_speed\<close> and the host is not notified.
\<close>

theorem tick_raises_without_notification:
  "async_update sample_const (received SPEED_ENDPOINT (PInt 3) sample_fan)
     = (Inl TypeError, received SPEED_ENDPOINT (PInt 3) sample_fan)
   \<and> ha_state_updates (snd (async_update sample_const (received SPEED_ENDPOINT (PInt 3) sample_fan)))
     = ha_state_updates (received SPEED_ENDPOINT (PInt 3) sample_fan)
   \<and> condition_at (fan_coordinator (received SPEED_ENDPOINT (PInt 3) sample_fan)) SPEED_ENDPOINT
     = Inr (PInt 3)
   \<and> update_speed_from sample_const (PInt 3) (received SPEED_ENDPOINT (PInt 3) sample_fan)
     = (Inr True, (received SPEED_ENDPOINT (PInt 3) sample_fan)\<lparr>percentage := Some 42\<rparr>)"
  by (simp add: async_update_raises received_def condition_at_def sample_fan_def
      VakioOpenAirFan_init_def update_speed_from_def speed_is_invalid_def py_gt_def py_eq_def
      py_sub_def py_getitem_def sample_const_def ordered_list_item_to_percentage_def)

subsection \<open>Setting the percentage\<close>

text \<open>
  Claim C5. Every call \<^verbatim>\<open>async_set_percentage(0)\<close> issues a turn-off command (a publish
  of the off sentinel to the \<^verbatim>\<open>state\<close> endpoint) and no publish to the \<^verbatim>\<open>speed\<close>
  endpoint. The code does not issue the turn-off command: \<^verbatim>\<open>turn_off\<close> is called
  without \<^verbatim>\<open>await\<close>, so the call sets the percentage to zero, notifies the host and
  leaves the coordinator, and with it the list of calls made on the client, as it was.
\<close>

theorem set_percentage_zero_publishes_nothing:
  "async_set_percentage C 0 e
     = (Inr (), e\<lparr>percentage := Some 0, ha_state_updates := ha_state_updates e + 1\<rparr>)
   \<and> client_calls (mqttc (fan_coordinator (snd (async_set_percentage C 0 e))))
     = client_calls (mqttc (fan_coordinator e))"
  by (simp add: async_set_percentage_def update_all_options_def)

text \<open>A request above zero is stored, and then the call raises: \<^verbatim>\<open>ValueError\<close> from the
  speed mapping when the speed list is empty, \<^verbatim>\<open>TypeError\<close> from \<^verbatim>\<open>update_speed\<close>
  otherwise. The coordinator, and with it the list of calls made on the client, is as it
  was, and the host is not notified.\<close>

lemma async_set_percentage_raises:
  "p \<noteq> 0 \<Longrightarrow> \<exists>err. async_set_percentage C p e = (Inl err, e\<lparr>percentage := Some p\<rparr>)"
  by (simp add: async_set_percentage_def update_speed_raises Let_def split: sum.splits)


subsection \<open>Setting the preset mode\<close>

text \<open>
  Claim C9. \<^verbatim>\<open>async_set_preset_mode\<close> raises exactly when the requested preset mode is
  not in the preset-mode list of the entity or the list is absent; the exception is
  \<^verbatim>\<open>ValueError\<close>, and when it is raised no field of the entity, the stored preset mode
  included, has changed.
\<close>

theorem set_preset_mode_validation:
  "((\<exists>err. fst (async_set_preset_mode C mode e) = Inl err)
      \<longleftrightarrow> \<not> (\<exists>modes. preset_modes e = Some modes \<and> mode \<in> set modes))
   \<and> (\<forall>err. fst (async_set_preset_mode C mode e) = Inl err
          \<longrightarrow> err = ValueError \<and> snd (async_set_preset_mode C mode e) = e)"
  by (auto simp: async_set_preset_mode_def Let_def split: option.splits)

text \<open>The sample entity has the six preset modes of \<^verbatim>\<open>PRESET_MODS\<close>: the mode "Boost"
  is refused and the entity is unchanged, the mode "Gate 1" is stored.\<close>

theorem set_preset_mode_validation_witness:
  "preset_modes sample_fan = Some PRESET_MODS
   \<and> ''Boost'' \<notin> set PRESET_MODS
   \<and> async_set_preset_mode sample_const ''Boost'' sample_fan = (Inl ValueError, sample_fan)
   \<and> ''Gate 1'' \<in> set PRESET_MODS
   \<and> fst (async_set_preset_mode sample_const ''Gate 1'' sample_fan) = Inr ()
   \<and> preset_mode (snd (async_set_preset_mode sample_const ''Gate 1'' sample_fan)) = Some ''Gate 1''"
proof -
  have modes: "preset_modes sample_fan = Some PRESET_MODS"
    by (simp add: sample_fan_def VakioOpenAirFan_init_def)
  have out: "''Boost'' \<notin> set PRESET_MODS" and inside: "''Gate 1'' \<in> set PRESET_MODS"
    by (simp_all add: PRESET_MODS_def)
  from modes out have "\<not> (\<exists>ms. preset_modes sample_fan = Some ms \<and> ''Boost'' \<in> set ms)"
    by simp
  with set_preset_mode_validation[of sample_const "''Boost''" sample_fan]
  have "async_set_preset_mode sample_const ''Boost'' sample_fan = (Inl ValueError, sample_fan)"
    by (metis prod.collapse)
  moreover from modes inside
  have "\<exists>ms. preset_modes sample_fan = Some ms \<and> ''Gate 1'' \<in> set ms" by simp
  with set_preset_mode_validation[of sample_const "''Gate 1''" sample_fan]
  have "\<not> (\<exists>err. fst (async_set_preset_mode sample_const ''Gate 1'' sample_fan) = Inl err)"
    by blast
  then have "fst (async_set_preset_mode sample_const ''Gate 1'' sample_fan) = Inr ()"
    by (cases "fst (async_set_preset_mode sample_const ''Gate 1'' sample_fan)") auto
  moreover have
    "preset_mode (snd (async_set_preset_mode sample_const ''Gate 1'' sample_fan)) = Some ''Gate 1''"
    using modes inside
    by (simp add: async_set_preset_mode_def update_all_options_def PRESET_MODS_def Let_def)
  ultimately show ?thesis using modes out inside by blast
qed

subsection \<open>The on/off step\<close>

text \<open>The step on its own, with the device on and the percentage null or zero: it
  returns true and clears an "off" preset mode; it sets the percentage to the
  percentage \<open>q\<close> of \<^verbatim>\<open>OPENAIR_SPEED_01\<close> when the percentage was null, and leaves a
  percentage of zero at zero.\<close>

lemma on_off_when_on:
  assumes "Coordinator_get_state (fan_coordinator e) = Inr (PStr (OPENAIR_STATE_ON C))"
    and "percentage e = None \<or> percentage e = Some 0"
    and "ordered_list_item_to_percentage (OPENAIR_SPEED_LIST C) (OPENAIR_SPEED_01 C) = Inr q"
  shows "update_on_off C e =
           (Inr True,
            e\<lparr>percentage := (if percentage e = None then Some q else Some 0),
              preset_mode := (if preset_mode e = Some (OPENAIR_STATE_OFF C) then None
                              else preset_mode e)\<rparr>)"
  using assms by (auto simp: update_on_off_def Coordinator_is_on_def)

text \<open>With the percentage zero and no "off" preset mode the step returns true and has
  changed no field, where its docstring promises true "if an update was performed".\<close>

lemma on_off_keeps_zero:
  "update_on_off sample_const
       (received STATE_ENDPOINT (PStr ''on'') (sample_fan\<lparr>percentage := Some 0\<rparr>))
     = (Inr True, received STATE_ENDPOINT (PStr ''on'') (sample_fan\<lparr>percentage := Some 0\<rparr>))"
  by (simp add: update_on_off_def Coordinator_is_on_def Coordinator_get_state_def condition_at_def
      received_def sample_fan_def VakioOpenAirFan_init_def sample_const_def)

text \<open>
  Claim C7. During a reconciliation tick, if the cached state of the device is the on
  sentinel and the percentage of the entity is null or zero, the on/off step sets the
  percentage to the percentage of the lowest speed, clears an "off" preset mode and
  flags a change. The code does not do that. The device has reported "on" to the
  sample entity, whose percentage is unknown; the lowest of the seven sample speeds is
  14 percent. The tick raises \<^verbatim>\<open>TypeError\<close> in \<^verbatim>\<open>update_speed\<close> before it reaches the
  on/off step: the percentage stays unknown and the host is not notified. The step on
  its own would set 14.
\<close>

theorem tick_never_reaches_on_off:
  "Coordinator_is_on sample_const
       (fan_coordinator (received STATE_ENDPOINT (PStr ''on'') sample_fan))
     = Inr True
   \<and> percentage (received STATE_ENDPOINT (PStr ''on'') sample_fan) = None
   \<and> async_update sample_const (received STATE_ENDPOINT (PStr ''on'') sample_fan)
     = (Inl TypeError, received STATE_ENDPOINT (PStr ''on'') sample_fan)
   \<and> ha_state_updates (snd (async_update sample_const
         (received STATE_ENDPOINT (PStr ''on'') sample_fan)))
     = 0
   \<and> update_on_off sample_const (received STATE_ENDPOINT (PStr ''on'') sample_fan)
     = (Inr True, (received STATE_ENDPOINT (PStr ''on'') sample_fan)\<lparr>percentage := Some 14\<rparr>)"
  by (simp add: async_update_raises update_on_off_def Coordinator_is_on_def
      Coordinator_get_state_def condition_at_def received_def sample_fan_def
      VakioOpenAirFan_init_def sample_const_def ordered_list_item_to_percentage_def)

end
